theory Spec2Isabelle
  imports Complex_Main
begin

section \<open>Numbers, arrays and method outcomes\<close>

text \<open>
  A numpy \<open>float64\<close> is modelled as an exact real number or one of the IEEE special
  values. Rounding and overflow are not modelled, so every equality below is the
  mathematical one; the special values are kept because division by zero and the square
  root of a negative number return them (with numpy's default error state they warn and
  do not raise). Signed zeros are not distinguished: a zero divisor counts as \<open>+0.0\<close>,
  which is what a sum that starts from \<open>numpy.zeros\<close> holds.
\<close>

datatype fl = Fin real | PInf | NInf | NaN

fun fl_add :: "fl \<Rightarrow> fl \<Rightarrow> fl" where
  "fl_add NaN b = NaN"
| "fl_add a NaN = NaN"
| "fl_add PInf NInf = NaN"
| "fl_add NInf PInf = NaN"
| "fl_add PInf b = PInf"
| "fl_add a PInf = PInf"
| "fl_add NInf b = NInf"
| "fl_add a NInf = NInf"
| "fl_add (Fin x) (Fin y) = Fin (x + y)"

fun fl_neg :: "fl \<Rightarrow> fl" where
  "fl_neg (Fin x) = Fin (- x)"
| "fl_neg PInf = NInf"
| "fl_neg NInf = PInf"
| "fl_neg NaN = NaN"

definition fl_sub :: "fl \<Rightarrow> fl \<Rightarrow> fl" where
  "fl_sub a b = fl_add a (fl_neg b)"

fun fl_mul :: "fl \<Rightarrow> fl \<Rightarrow> fl" where
  "fl_mul NaN b = NaN"
| "fl_mul a NaN = NaN"
| "fl_mul (Fin x) (Fin y) = Fin (x * y)"
| "fl_mul (Fin x) PInf = (if x = 0 then NaN else if 0 < x then PInf else NInf)"
| "fl_mul (Fin x) NInf = (if x = 0 then NaN else if 0 < x then NInf else PInf)"
| "fl_mul PInf (Fin y) = (if y = 0 then NaN else if 0 < y then PInf else NInf)"
| "fl_mul NInf (Fin y) = (if y = 0 then NaN else if 0 < y then NInf else PInf)"
| "fl_mul PInf PInf = PInf"
| "fl_mul PInf NInf = NInf"
| "fl_mul NInf PInf = NInf"
| "fl_mul NInf NInf = PInf"

fun fl_div :: "fl \<Rightarrow> fl \<Rightarrow> fl" where
  "fl_div NaN b = NaN"
| "fl_div a NaN = NaN"
| "fl_div (Fin x) (Fin y) =
     (if y = 0 then (if x = 0 then NaN else if 0 < x then PInf else NInf)
      else Fin (x / y))"
| "fl_div (Fin x) PInf = Fin 0"
| "fl_div (Fin x) NInf = Fin 0"
| "fl_div PInf (Fin y) = (if 0 \<le> y then PInf else NInf)"
| "fl_div NInf (Fin y) = (if 0 \<le> y then NInf else PInf)"
| "fl_div PInf PInf = NaN"
| "fl_div PInf NInf = NaN"
| "fl_div NInf PInf = NaN"
| "fl_div NInf NInf = NaN"

text \<open>\<open>x ** 2\<close> and \<open>x ** 2.\<close>.\<close>

definition fl_pow2 :: "fl \<Rightarrow> fl" where
  "fl_pow2 x = fl_mul x x"

text \<open>\<open>numpy.sqrt\<close>, \<open>numpy.exp\<close> and \<open>numpy.log\<close> on one value.\<close>

fun fl_sqrt :: "fl \<Rightarrow> fl" where
  "fl_sqrt (Fin x) = (if x < 0 then NaN else Fin (sqrt x))"
| "fl_sqrt PInf = PInf"
| "fl_sqrt NInf = NaN"
| "fl_sqrt NaN = NaN"

fun fl_exp :: "fl \<Rightarrow> fl" where
  "fl_exp (Fin x) = Fin (exp x)"
| "fl_exp PInf = PInf"
| "fl_exp NInf = Fin 0"
| "fl_exp NaN = NaN"

fun fl_log :: "fl \<Rightarrow> fl" where
  "fl_log (Fin x) = (if x < 0 then NaN else if x = 0 then NInf else Fin (ln x))"
| "fl_log PInf = PInf"
| "fl_log NInf = NaN"
| "fl_log NaN = NaN"

text \<open>\<open>a.sum()\<close> of a one-dimensional array; the sum of an empty array is \<open>0.0\<close>.\<close>

primrec fl_sum :: "fl list \<Rightarrow> fl" where
  "fl_sum [] = Fin 0"
| "fl_sum (x # xs) = fl_add x (fl_sum xs)"

text \<open>
  The exceptions of the modelled paths. \<open>ValueError\<close> and \<open>IndexError\<close> are numpy's
  (shapes that do not fit, too many indices). \<open>InsufficientDataError\<close> is the name the
  specification gives to finalising a zero-weight accumulator; no path of the source
  raises it.
\<close>

datatype error = ValueError | IndexError | InsufficientDataError

text \<open>
  A method call on an object either returns, leaving the object in a new state, or raises,
  leaving the object in the state it had reached when the exception left the method.
\<close>

datatype 'a outcome = Returned 'a | Raised error 'a

fun state_of :: "'a outcome \<Rightarrow> 'a" where
  "state_of (Returned s) = s"
| "state_of (Raised e s) = s"

text \<open>One call after another on the same object; an exception ends the sequence.\<close>

fun and_then :: "'a outcome \<Rightarrow> ('a \<Rightarrow> 'a outcome) \<Rightarrow> 'a outcome" where
  "and_then (Returned s) f = f s"
| "and_then (Raised e s) f = Raised e s"

text \<open>
  The arrays the methods receive: one-dimensional of shape \<open>(n,)\<close>, or two-dimensional
  of shape \<open>(n, k)\<close> given by its \<open>n\<close> rows.
\<close>

datatype ndarray = Vec "fl list" | Mat "fl list list"

text \<open>\<open>X.shape[0]\<close>.\<close>

fun shape0 :: "ndarray \<Rightarrow> nat" where
  "shape0 (Vec xs) = length xs"
| "shape0 (Mat rows) = length rows"

text \<open>\<open>numpy.ones(n)\<close> and \<open>numpy.zeros(3)\<close>; the latter is kept as a triple.\<close>

definition ones :: "nat \<Rightarrow> fl list" where
  "ones n = replicate n (Fin 1)"

definition zeros3 :: "fl \<times> fl \<times> fl" where
  "zeros3 = (Fin 0, Fin 0, Fin 0)"

text \<open>
  \<open>X.reshape(X.shape[0])\<close>: the array as a vector of \<open>X.shape[0]\<close> entries. numpy
  raises \<open>ValueError\<close> unless the array has exactly that many entries, that is unless
  every row of a two-dimensional array has one entry.
\<close>

fun reshape0 :: "ndarray \<Rightarrow> error + fl list" where
  "reshape0 (Vec xs) = Inr xs"
| "reshape0 (Mat rows) =
     (if list_all (\<lambda>r. length r = 1) rows then Inr (concat rows) else Inl ValueError)"

text \<open>\<open>a.dot(b)\<close> of two vectors; numpy raises \<open>ValueError\<close> when the lengths differ.\<close>

definition dot :: "fl list \<Rightarrow> fl list \<Rightarrow> error + fl" where
  "dot a b =
     (if length a = length b then Inr (fl_sum (map2 fl_mul a b)) else Inl ValueError)"

section \<open>NormalDistribution2\<close>

record NormalDistribution2 =
  mu :: fl
  std :: fl
  parameters :: "fl \<times> fl"
  d :: nat
  summaries :: "fl \<times> fl \<times> fl"

definition NormalDistribution2_init :: "fl \<Rightarrow> fl \<Rightarrow> NormalDistribution2" where
  "NormalDistribution2_init m s =
     \<lparr>mu = m, std = s, parameters = (m, s), d = 1, summaries = zeros3\<rparr>"

text \<open>
  \<open>scipy.stats.norm.logpdf\<close> is a library function outside the repository; it is a
  parameter of the model, applied to every entry of the array.
\<close>

fun map_ndarray :: "(fl \<Rightarrow> fl) \<Rightarrow> ndarray \<Rightarrow> ndarray" where
  "map_ndarray f (Vec xs) = Vec (map f xs)"
| "map_ndarray f (Mat rows) = Mat (map (map f) rows)"

definition NormalDistribution2_log_probability ::
  "(fl \<Rightarrow> fl \<Rightarrow> fl \<Rightarrow> fl) \<Rightarrow> ndarray \<Rightarrow> NormalDistribution2 \<Rightarrow> ndarray" where
  "NormalDistribution2_log_probability norm_logpdf X self =
     map_ndarray (\<lambda>x. norm_logpdf x (mu self) (std self)) X"

text \<open>
  \<open>summarize\<close> updates the three entries of \<open>summaries\<close> one after the other; an
  exception of \<open>dot\<close> leaves the entries already updated in place.
\<close>

definition NormalDistribution2_summarize ::
  "ndarray \<Rightarrow> fl list option \<Rightarrow> NormalDistribution2 \<Rightarrow> NormalDistribution2 outcome" where
  "NormalDistribution2_summarize X w self =
     (let w = (case w of None \<Rightarrow> ones (shape0 X) | Some v \<Rightarrow> v) in
      (case reshape0 X of
         Inl e \<Rightarrow> Raised e self
       | Inr X \<Rightarrow>
          (case summaries self of (s0, s1, s2) \<Rightarrow>
            (let s0 = fl_add s0 (fl_sum w); self = self\<lparr>summaries := (s0, s1, s2)\<rparr> in
             (case dot X w of
                Inl e \<Rightarrow> Raised e self
              | Inr a \<Rightarrow>
                 (let s1 = fl_add s1 a; self = self\<lparr>summaries := (s0, s1, s2)\<rparr> in
                  (case dot (map fl_pow2 X) w of
                     Inl e \<Rightarrow> Raised e self
                   | Inr b \<Rightarrow> Returned (self\<lparr>summaries := (s0, s1, fl_add s2 b)\<rparr>))))))))"

definition NormalDistribution2_clear_summaries ::
  "fl \<Rightarrow> NormalDistribution2 \<Rightarrow> NormalDistribution2 outcome" where
  "NormalDistribution2_clear_summaries inertia self = Returned (self\<lparr>summaries := zeros3\<rparr>)"

definition NormalDistribution2_from_summaries ::
  "fl \<Rightarrow> NormalDistribution2 \<Rightarrow> NormalDistribution2 outcome" where
  "NormalDistribution2_from_summaries inertia self =
     (case summaries self of (s0, s1, s2) \<Rightarrow>
        let self = self\<lparr>mu := fl_div s1 s0\<rparr>;
            self = self\<lparr>std := fl_sub (fl_div s2 s0) (fl_div (fl_pow2 s1) (fl_pow2 s0))\<rparr>;
            self = self\<lparr>std := fl_sqrt (std self)\<rparr>;
            self = self\<lparr>parameters := (mu self, std self)\<rparr>
        in NormalDistribution2_clear_summaries (Fin 0) self)"

definition NormalDistribution2_from_samples ::
  "ndarray \<Rightarrow> fl list option \<Rightarrow> NormalDistribution2 outcome" where
  "NormalDistribution2_from_samples X weights =
     and_then (NormalDistribution2_summarize X weights (NormalDistribution2_init (Fin 0) (Fin 0)))
       (NormalDistribution2_from_summaries (Fin 0))"

definition NormalDistribution2_blank :: NormalDistribution2 where
  "NormalDistribution2_blank = NormalDistribution2_init (Fin 0) (Fin 0)"

section \<open>StudentTDistribution\<close>

record StudentTDistribution =
  t_mu :: fl
  t_std :: fl
  df :: fl
  t_parameters :: "fl \<times> fl"
  t_d :: nat
  t_summaries :: "fl \<times> fl \<times> fl"

text \<open>
  The fields \<open>mu\<close>, \<open>std\<close>, \<open>parameters\<close>, \<open>d\<close> and \<open>summaries\<close> of the class carry the
  prefix \<open>t_\<close> here, since \<open>NormalDistribution2\<close> has fields of the same names. The
  constructor's \<open>df\<close> defaults to \<open>1.0\<close>; the caller of the model passes it.
\<close>

definition StudentTDistribution_init :: "fl \<Rightarrow> fl \<Rightarrow> fl \<Rightarrow> StudentTDistribution" where
  "StudentTDistribution_init m s f =
     \<lparr>t_mu = m, t_std = s, df = f, t_parameters = (m, s), t_d = 1, t_summaries = zeros3\<rparr>"

text \<open>\<open>scipy.stats.t.logpdf\<close> is a parameter, as \<open>scipy.stats.norm.logpdf\<close> is above.\<close>

definition StudentTDistribution_log_probability ::
  "(fl \<Rightarrow> fl \<Rightarrow> fl \<Rightarrow> fl \<Rightarrow> fl) \<Rightarrow> ndarray \<Rightarrow> StudentTDistribution \<Rightarrow> ndarray" where
  "StudentTDistribution_log_probability t_logpdf X self =
     map_ndarray (\<lambda>x. t_logpdf x (df self) (t_mu self) (t_std self)) X"

definition StudentTDistribution_probability ::
  "(fl \<Rightarrow> fl \<Rightarrow> fl \<Rightarrow> fl \<Rightarrow> fl) \<Rightarrow> ndarray \<Rightarrow> StudentTDistribution \<Rightarrow> ndarray" where
  "StudentTDistribution_probability t_logpdf X self =
     map_ndarray fl_exp (StudentTDistribution_log_probability t_logpdf X self)"

definition StudentTDistribution_summarize ::
  "ndarray \<Rightarrow> fl list option \<Rightarrow> StudentTDistribution \<Rightarrow> StudentTDistribution outcome" where
  "StudentTDistribution_summarize X w self =
     (let w = (case w of None \<Rightarrow> ones (shape0 X) | Some v \<Rightarrow> v) in
      (case reshape0 X of
         Inl e \<Rightarrow> Raised e self
       | Inr X \<Rightarrow>
          (case t_summaries self of (s0, s1, s2) \<Rightarrow>
            (let s0 = fl_add s0 (fl_sum w); self = self\<lparr>t_summaries := (s0, s1, s2)\<rparr> in
             (case dot X w of
                Inl e \<Rightarrow> Raised e self
              | Inr a \<Rightarrow>
                 (let s1 = fl_add s1 a; self = self\<lparr>t_summaries := (s0, s1, s2)\<rparr> in
                  (case dot (map fl_pow2 X) w of
                     Inl e \<Rightarrow> Raised e self
                   | Inr b \<Rightarrow> Returned (self\<lparr>t_summaries := (s0, s1, fl_add s2 b)\<rparr>))))))))"

definition StudentTDistribution_clear_summaries ::
  "fl \<Rightarrow> StudentTDistribution \<Rightarrow> StudentTDistribution outcome" where
  "StudentTDistribution_clear_summaries inertia self = Returned (self\<lparr>t_summaries := zeros3\<rparr>)"

definition StudentTDistribution_from_summaries ::
  "fl \<Rightarrow> StudentTDistribution \<Rightarrow> StudentTDistribution outcome" where
  "StudentTDistribution_from_summaries inertia self =
     (case t_summaries self of (s0, s1, s2) \<Rightarrow>
        let self = self\<lparr>t_mu := fl_div s1 s0\<rparr>;
            self = self\<lparr>t_std := fl_sub (fl_div s2 s0) (fl_div (fl_pow2 s1) (fl_pow2 s0))\<rparr>;
            self = self\<lparr>t_std := fl_sqrt (t_std self)\<rparr>;
            self = self\<lparr>t_parameters := (t_mu self, t_std self)\<rparr>
        in StudentTDistribution_clear_summaries (Fin 0) self)"

definition StudentTDistribution_from_samples ::
  "ndarray \<Rightarrow> fl list option \<Rightarrow> fl \<Rightarrow> StudentTDistribution outcome" where
  "StudentTDistribution_from_samples X weights f =
     and_then (StudentTDistribution_summarize X weights (StudentTDistribution_init (Fin 0) (Fin 0) f))
       (StudentTDistribution_from_summaries (Fin 0))"

definition StudentTDistribution_blank :: StudentTDistribution where
  "StudentTDistribution_blank = StudentTDistribution_init (Fin 0) (Fin 0) (Fin 1)"

section \<open>BlockGaussianDistribution\<close>

text \<open>
  The block holds any objects that have an attribute \<open>d\<close> and the methods
  \<open>log_probability\<close>, \<open>summarize\<close> and \<open>from_summaries\<close>; the tutorial fills it with
  library distributions. The model takes the sub-distributions' attribute and methods as
  parameters, and takes the objects of the list to be distinct (none occurs twice).
  A sub-distribution's \<open>log_probability\<close> only reads the object. The block's own
  attribute \<open>d\<close> is the field \<open>block_d\<close>.
\<close>

record 'a methods =
  sub_d :: "'a \<Rightarrow> nat"
  sub_log_probability :: "'a \<Rightarrow> ndarray \<Rightarrow> error + ndarray"
  sub_summarize :: "ndarray \<Rightarrow> fl list option \<Rightarrow> 'a \<Rightarrow> 'a outcome"
  sub_from_summaries :: "fl \<Rightarrow> 'a \<Rightarrow> 'a outcome"

record 'a BlockGaussianDistribution =
  distributions :: "'a list"
  block_d :: nat

definition BlockGaussianDistribution_init ::
  "'a methods \<Rightarrow> 'a list \<Rightarrow> 'a BlockGaussianDistribution" where
  "BlockGaussianDistribution_init ops ds =
     \<lparr>distributions = ds, block_d = sum_list (map (sub_d ops) ds)\<rparr>"

text \<open>
  \<open>X[:, i:j]\<close>: the columns \<open>i\<close> to \<open>j - 1\<close> of every row, cut off at the row's end as
  numpy's slices are; a one-dimensional array has no second index.
\<close>

fun columns :: "ndarray \<Rightarrow> nat \<Rightarrow> nat \<Rightarrow> error + ndarray" where
  "columns (Mat rows) i j = Inr (Mat (map (\<lambda>r. take (j - i) (drop i r)) rows))"
| "columns (Vec xs) i j = Inl IndexError"

text \<open>
  \<open>a += b\<close> for a vector \<open>a\<close>: \<open>b\<close> is added entry by entry when it is a vector of the
  same length, to every entry when it is a vector of one entry; numpy raises
  \<open>ValueError\<close> for every other shape, a two-dimensional one included.
\<close>

fun iadd :: "fl list \<Rightarrow> ndarray \<Rightarrow> error + fl list" where
  "iadd a (Vec b) =
     (if length b = length a then Inr (map2 fl_add a b)
      else if length b = 1 then Inr (map (\<lambda>x. fl_add x (hd b)) a)
      else Inl ValueError)"
| "iadd a (Mat rows) = Inl ValueError"

text \<open>The loop of \<open>log_probability\<close>, from column \<open>i\<close> and the running sum \<open>acc\<close>.\<close>

fun log_probability_loop ::
  "'a methods \<Rightarrow> ndarray \<Rightarrow> 'a list \<Rightarrow> nat \<Rightarrow> fl list \<Rightarrow> error + fl list" where
  "log_probability_loop ops X [] i acc = Inr acc"
| "log_probability_loop ops X (distribution # rest) i acc =
     (case columns X i (i + sub_d ops distribution) of
        Inl e \<Rightarrow> Inl e
      | Inr Xi \<Rightarrow>
         (case sub_log_probability ops distribution Xi of
            Inl e \<Rightarrow> Inl e
          | Inr v \<Rightarrow>
             (case iadd acc v of
                Inl e \<Rightarrow> Inl e
              | Inr acc' \<Rightarrow> log_probability_loop ops X rest (i + sub_d ops distribution) acc')))"

definition BlockGaussianDistribution_log_probability ::
  "'a methods \<Rightarrow> ndarray \<Rightarrow> 'a BlockGaussianDistribution \<Rightarrow> error + ndarray" where
  "BlockGaussianDistribution_log_probability ops X self =
     (case log_probability_loop ops X (distributions self) 0 (replicate (shape0 X) (Fin 0)) of
        Inl e \<Rightarrow> Inl e
      | Inr acc \<Rightarrow> Inr (Vec acc))"

text \<open>
  The loop of \<open>summarize\<close> over the list of sub-distributions, from column \<open>i\<close>. The
  slice is cut with the sub-distribution's \<open>d\<close> before its \<open>summarize\<close>, and \<open>i\<close>
  advances by its \<open>d\<close> after it. An exception leaves the earlier objects updated.
\<close>

fun summarize_loop ::
  "'a methods \<Rightarrow> ndarray \<Rightarrow> fl list option \<Rightarrow> 'a list \<Rightarrow> nat \<Rightarrow> 'a list outcome" where
  "summarize_loop ops X w [] i = Returned []"
| "summarize_loop ops X w (distribution # rest) i =
     (case columns X i (i + sub_d ops distribution) of
        Inl e \<Rightarrow> Raised e (distribution # rest)
      | Inr Xi \<Rightarrow>
         (case sub_summarize ops Xi w distribution of
            Raised e distribution' \<Rightarrow> Raised e (distribution' # rest)
          | Returned distribution' \<Rightarrow>
             (case summarize_loop ops X w rest (i + sub_d ops distribution') of
                Raised e rest' \<Rightarrow> Raised e (distribution' # rest')
              | Returned rest' \<Rightarrow> Returned (distribution' # rest'))))"

definition BlockGaussianDistribution_summarize ::
  "'a methods \<Rightarrow> ndarray \<Rightarrow> fl list option \<Rightarrow> 'a BlockGaussianDistribution \<Rightarrow>
     'a BlockGaussianDistribution outcome" where
  "BlockGaussianDistribution_summarize ops X w self =
     (case summarize_loop ops X w (distributions self) 0 of
        Raised e ds \<Rightarrow> Raised e (self\<lparr>distributions := ds\<rparr>)
      | Returned ds \<Rightarrow> Returned (self\<lparr>distributions := ds\<rparr>))"

fun from_summaries_loop :: "'a methods \<Rightarrow> fl \<Rightarrow> 'a list \<Rightarrow> 'a list outcome" where
  "from_summaries_loop ops inertia [] = Returned []"
| "from_summaries_loop ops inertia (distribution # rest) =
     (case sub_from_summaries ops inertia distribution of
        Raised e distribution' \<Rightarrow> Raised e (distribution' # rest)
      | Returned distribution' \<Rightarrow>
         (case from_summaries_loop ops inertia rest of
            Raised e rest' \<Rightarrow> Raised e (distribution' # rest')
          | Returned rest' \<Rightarrow> Returned (distribution' # rest')))"

definition BlockGaussianDistribution_from_summaries ::
  "'a methods \<Rightarrow> fl \<Rightarrow> 'a BlockGaussianDistribution \<Rightarrow> 'a BlockGaussianDistribution outcome" where
  "BlockGaussianDistribution_from_summaries ops inertia self =
     (case from_summaries_loop ops inertia (distributions self) of
        Raised e ds \<Rightarrow> Raised e (self\<lparr>distributions := ds\<rparr>)
      | Returned ds \<Rightarrow> Returned (self\<lparr>distributions := ds\<rparr>))"

text \<open>
  \<open>blank\<close> and \<open>from_samples\<close> build the block from
  \<open>MultivariateGaussianDistribution.blank(d)\<close>, a library constructor: the parameter
  \<open>mgd_blank\<close>.
\<close>

definition BlockGaussianDistribution_blank ::
  "'a methods \<Rightarrow> (nat \<Rightarrow> 'a) \<Rightarrow> nat list \<Rightarrow> 'a BlockGaussianDistribution" where
  "BlockGaussianDistribution_blank ops mgd_blank ds =
     BlockGaussianDistribution_init ops (map mgd_blank ds)"

definition BlockGaussianDistribution_from_samples ::
  "'a methods \<Rightarrow> (nat \<Rightarrow> 'a) \<Rightarrow> ndarray \<Rightarrow> fl list option \<Rightarrow> nat list \<Rightarrow>
     'a BlockGaussianDistribution outcome" where
  "BlockGaussianDistribution_from_samples ops mgd_blank X weights ds =
     and_then
       (BlockGaussianDistribution_summarize ops X weights
          (BlockGaussianDistribution_init ops (map mgd_blank ds)))
       (BlockGaussianDistribution_from_summaries ops (Fin 0))"

text \<open>
  The column ranges the two loops visit for sub-distributions of dimensions \<open>ks\<close>,
  starting at column \<open>i\<close>.
\<close>

fun slices :: "nat \<Rightarrow> nat list \<Rightarrow> (nat \<times> nat) list" where
  "slices i [] = []"
| "slices i (k # ks) = (i, i + k) # slices (i + k) ks"

text \<open>The slice \<open>X[:, a:b]\<close> of a two-dimensional array given by its rows.\<close>

definition feature_slice :: "fl list list \<Rightarrow> nat \<times> nat \<Rightarrow> ndarray" where
  "feature_slice rows ab = Mat (map (\<lambda>r. take (snd ab - fst ab) (drop (fst ab) r)) rows)"

text \<open>
  A stand-in for a univariate library distribution as a member of a block. It takes the
  attribute \<open>d\<close>, \<open>summarize\<close> and \<open>from_summaries\<close> from \<open>NormalDistribution2\<close>; its
  \<open>log_probability\<close> is that of \<open>NormalDistribution2\<close> flattened to one value per
  sample, the shape that the block's running vector takes (\<open>NormalDistribution2\<close>
  itself answers a two-dimensional slice with a two-dimensional array).
\<close>

definition NormalDistribution2_methods ::
  "(fl \<Rightarrow> fl \<Rightarrow> fl \<Rightarrow> fl) \<Rightarrow> NormalDistribution2 methods" where
  "NormalDistribution2_methods norm_logpdf =
     \<lparr>sub_d = d,
      sub_log_probability = (\<lambda>self X.
         case reshape0 (NormalDistribution2_log_probability norm_logpdf X self) of
           Inl e \<Rightarrow> Inl e | Inr v \<Rightarrow> Inr (Vec v)),
      sub_summarize = NormalDistribution2_summarize,
      sub_from_summaries = NormalDistribution2_from_summaries\<rparr>"

section \<open>DiscreteDistribution\<close>

text \<open>
  Modelled from the spec: the class \<open>DiscreteDistribution\<close> is library code that the
  tutorials only call. The specification gives it a symbol-to-index map and one
  probability per index.
\<close>

record DiscreteDistribution =
  keymap :: "(string \<times> nat) list"
  probabilities :: "fl list"

text \<open>
  Modelled from the spec: the constructor \<open>DiscreteDistribution(dict)\<close>, which numbers
  the keys of the dictionary in their order and stores their probabilities.
\<close>

definition DiscreteDistribution_init :: "(string \<times> fl) list \<Rightarrow> DiscreteDistribution" where
  "DiscreteDistribution_init dict =
     \<lparr>keymap = zip (map fst dict) [0..<length dict], probabilities = map snd dict\<rparr>"

text \<open>
  Modelled from the spec: \<open>DiscreteDistribution.probability\<close>; a symbol that is not in
  the map has probability 0.
\<close>

definition DiscreteDistribution_probability ::
  "string \<Rightarrow> DiscreteDistribution \<Rightarrow> error + fl" where
  "DiscreteDistribution_probability symbol self =
     (case map_of (keymap self) symbol of
        None \<Rightarrow> Inr (Fin 0)
      | Some i \<Rightarrow>
          (if i < length (probabilities self) then Inr (probabilities self ! i)
           else Inl IndexError))"

text \<open>
  Modelled from the spec: \<open>DiscreteDistribution.log_probability\<close>; a symbol that is not
  in the map has log-probability minus infinity.
\<close>

definition DiscreteDistribution_log_probability ::
  "string \<Rightarrow> DiscreteDistribution \<Rightarrow> error + fl" where
  "DiscreteDistribution_log_probability symbol self =
     (case map_of (keymap self) symbol of
        None \<Rightarrow> Inr NInf
      | Some i \<Rightarrow>
          (if i < length (probabilities self) then Inr (fl_log (probabilities self ! i))
           else Inl IndexError))"

section \<open>The EM trainer\<close>

text \<open>
  The order \<open><\<close> of float64: false whenever one side is NaN.
\<close>

fun fl_less :: "fl \<Rightarrow> fl \<Rightarrow> bool" where
  "fl_less (Fin x) (Fin y) = (x < y)"
| "fl_less NInf (Fin y) = True"
| "fl_less NInf PInf = True"
| "fl_less (Fin x) PInf = True"
| "fl_less a b = False"

text \<open>
  Modelled from the spec: the mixture model that the EM trainer updates, an ordered
  sequence of component distributions with one prior weight per component. The class
  (\<open>GeneralMixtureModel\<close>) and the trainer are library code that the tutorials only
  call.
\<close>

record 'c mixture =
  components :: "'c list"
  priors :: "fl list"

text \<open>Modelled from the spec: log-sum-exp, the logarithm of the sum of the exponentials.\<close>

definition logsumexp :: "fl list \<Rightarrow> fl" where
  "logsumexp ts = fl_log (fl_sum (map fl_exp ts))"

text \<open>
  Modelled from the spec: \<open>log_prior[k] + log_prob_k(x)\<close> for every component \<open>k\<close>. The
  component's \<open>log_probability\<close> of one sample is the parameter \<open>log_prob\<close>.
\<close>

definition component_scores :: "('c \<Rightarrow> 'x \<Rightarrow> fl) \<Rightarrow> 'c mixture \<Rightarrow> 'x \<Rightarrow> fl list" where
  "component_scores log_prob m x =
     map2 (\<lambda>p c. fl_add (fl_log p) (log_prob c x)) (priors m) (components m)"

text \<open>
  Modelled from the spec: step 1 of the trainer, the responsibilities of one sample,
  \<open>r[i][k] = exp(log_prior[k] + log_prob_k(x_i) - logsumexp_k(...))\<close>.
\<close>

definition responsibilities :: "('c \<Rightarrow> 'x \<Rightarrow> fl) \<Rightarrow> 'c mixture \<Rightarrow> 'x \<Rightarrow> fl list" where
  "responsibilities log_prob m x =
     map (\<lambda>t. fl_exp (fl_sub t (logsumexp (component_scores log_prob m x))))
       (component_scores log_prob m x)"

text \<open>Modelled from the spec: the weights \<open>r[:, k]\<close> that component \<open>k\<close> is summarized with.\<close>

definition responsibility_column ::
  "('c \<Rightarrow> 'x \<Rightarrow> fl) \<Rightarrow> 'c mixture \<Rightarrow> 'x list \<Rightarrow> nat \<Rightarrow> fl list" where
  "responsibility_column log_prob m X k = map (\<lambda>x. responsibilities log_prob m x ! k) X"

text \<open>
  Modelled from the spec: steps 2 and 3 of the trainer. Every component is summarized
  with the weights \<open>r[:, k]\<close> and updated from its summaries (the parameter \<open>fit\<close> is the
  component's \<open>summarize\<close> followed by its \<open>from_summaries\<close>), and
  \<open>prior[k] = sum_i r[i][k] / N\<close>.
\<close>

definition em_step ::
  "('c \<Rightarrow> 'x \<Rightarrow> fl) \<Rightarrow> ('x list \<Rightarrow> fl list \<Rightarrow> 'c \<Rightarrow> 'c) \<Rightarrow> 'x list \<Rightarrow>
     'c mixture \<Rightarrow> 'c mixture" where
  "em_step log_prob fit X m =
     \<lparr>components =
        map (\<lambda>k. fit X (responsibility_column log_prob m X k) (components m ! k))
          [0..<length (components m)],
      priors =
        map (\<lambda>k. fl_div (fl_sum (responsibility_column log_prob m X k))
                  (Fin (real (length X))))
          [0..<length (components m)]\<rparr>"

text \<open>
  Modelled from the spec: step 4 of the trainer, the total log-likelihood of the dataset,
  the sum over the samples of the log-sum-exp of the component scores.
\<close>

definition total_log_likelihood :: "('c \<Rightarrow> 'x \<Rightarrow> fl) \<Rightarrow> 'x list \<Rightarrow> 'c mixture \<Rightarrow> fl" where
  "total_log_likelihood log_prob X m =
     fl_sum (map (\<lambda>x. logsumexp (component_scores log_prob m x)) X)"

text \<open>
  Modelled from the spec: the log-likelihood of the weighted samples under one component,
  the quantity that a maximum-likelihood \<open>from_summaries\<close> makes as large as possible.
\<close>

definition weighted_log_likelihood ::
  "('c \<Rightarrow> 'x \<Rightarrow> fl) \<Rightarrow> 'x list \<Rightarrow> fl list \<Rightarrow> 'c \<Rightarrow> fl" where
  "weighted_log_likelihood log_prob X w c =
     fl_sum (map2 (\<lambda>x wi. fl_mul wi (log_prob c x)) X w)"

text \<open>
  \<open>StudentTDistribution\<close> as a component of the trainer. Its log-probability of one
  sample is the entry of \<open>log_probability\<close> of the one-sample array, whatever value that
  is (\<open>log_probability\<close> returns an array of the shape of its argument, so the second
  case does not occur); \<open>scipy.stats.t.logpdf\<close> stays a parameter. Its update is
  \<open>summarize\<close> with the weights followed by \<open>from_summaries\<close>.
\<close>

definition StudentTDistribution_log_prob ::
  "(fl \<Rightarrow> fl \<Rightarrow> fl \<Rightarrow> fl \<Rightarrow> fl) \<Rightarrow> StudentTDistribution \<Rightarrow> fl \<Rightarrow> fl" where
  "StudentTDistribution_log_prob t_logpdf self x =
     (case StudentTDistribution_log_probability t_logpdf (Vec [x]) self of
        Vec [y] \<Rightarrow> y
      | _ \<Rightarrow> NaN)"

definition StudentTDistribution_fit ::
  "fl list \<Rightarrow> fl list \<Rightarrow> StudentTDistribution \<Rightarrow> StudentTDistribution" where
  "StudentTDistribution_fit X w self =
     state_of (and_then
       (StudentTDistribution_summarize (Vec X) (Some w) self)
       (StudentTDistribution_from_summaries (Fin 0)))"

section \<open>Facts about the arithmetic\<close>

lemma fl_add_assoc: "fl_add (fl_add a b) c = fl_add a (fl_add b c)"
  by (cases a; cases b; cases c) simp_all

lemma fl_add_zero_left: "fl_add (Fin 0) a = a"
  by (cases a) simp_all

lemma fl_add_zero_right: "fl_add a (Fin 0) = a"
  by (cases a) simp_all

section \<open>Closed forms of the methods\<close>

lemma NormalDistribution2_from_summaries_eq:
  "NormalDistribution2_from_summaries inertia self =
     Returned (self\<lparr>mu := fl_div (fst (snd (summaries self))) (fst (summaries self)),
       std := fl_sqrt (fl_sub (fl_div (snd (snd (summaries self))) (fst (summaries self)))
                (fl_div (fl_pow2 (fst (snd (summaries self)))) (fl_pow2 (fst (summaries self))))),
       parameters := (fl_div (fst (snd (summaries self))) (fst (summaries self)),
          fl_sqrt (fl_sub (fl_div (snd (snd (summaries self))) (fst (summaries self)))
                (fl_div (fl_pow2 (fst (snd (summaries self)))) (fl_pow2 (fst (summaries self)))))),
       summaries := zeros3\<rparr>)"
  by (cases "summaries self")
     (simp add: NormalDistribution2_from_summaries_def NormalDistribution2_clear_summaries_def)

lemma StudentTDistribution_from_summaries_eq:
  "StudentTDistribution_from_summaries inertia self =
     Returned (self\<lparr>t_mu := fl_div (fst (snd (t_summaries self))) (fst (t_summaries self)),
       t_std := fl_sqrt (fl_sub (fl_div (snd (snd (t_summaries self))) (fst (t_summaries self)))
                (fl_div (fl_pow2 (fst (snd (t_summaries self))))
                   (fl_pow2 (fst (t_summaries self))))),
       t_parameters := (fl_div (fst (snd (t_summaries self))) (fst (t_summaries self)),
          fl_sqrt (fl_sub (fl_div (snd (snd (t_summaries self))) (fst (t_summaries self)))
                (fl_div (fl_pow2 (fst (snd (t_summaries self))))
                   (fl_pow2 (fst (t_summaries self)))))),
       t_summaries := zeros3\<rparr>)"
  by (cases "t_summaries self")
     (simp add: StudentTDistribution_from_summaries_def StudentTDistribution_clear_summaries_def)

lemma NormalDistribution2_summarize_frame:
  "mu (state_of (NormalDistribution2_summarize X w self)) = mu self
   \<and> std (state_of (NormalDistribution2_summarize X w self)) = std self
   \<and> parameters (state_of (NormalDistribution2_summarize X w self)) = parameters self
   \<and> d (state_of (NormalDistribution2_summarize X w self)) = d self"
  by (cases "summaries self")
     (simp add: NormalDistribution2_summarize_def Let_def split: sum.split)

lemma StudentTDistribution_summarize_frame:
  "t_mu (state_of (StudentTDistribution_summarize X w self)) = t_mu self
   \<and> t_std (state_of (StudentTDistribution_summarize X w self)) = t_std self
   \<and> df (state_of (StudentTDistribution_summarize X w self)) = df self
   \<and> t_parameters (state_of (StudentTDistribution_summarize X w self)) = t_parameters self
   \<and> t_d (state_of (StudentTDistribution_summarize X w self)) = t_d self"
  by (cases "t_summaries self")
     (simp add: StudentTDistribution_summarize_def Let_def split: sum.split)

section \<open>The loops of the block\<close>

lemma slices_cover: "concat (map (\<lambda>(a, b). [a..<b]) (slices i ks)) = [i..<i + sum_list ks]"
proof (induction ks arbitrary: i)
  case Nil
  then show ?case by simp
next
  case (Cons k ks)
  have "[i..<i + k] @ [i + k..<i + k + sum_list ks] = [i..<i + k + sum_list ks]"
    by (metis le_add1 upt_add_eq_append)
  with Cons show ?case by (simp add: add.assoc)
qed

lemma log_probability_loop_sum:
  assumes "map2 (\<lambda>dist ab. sub_log_probability ops dist (feature_slice rows ab)) ds
             (slices i (map (sub_d ops) ds)) = map (\<lambda>v. Inr (Vec v)) vs"
    and "list_all (\<lambda>v. length v = length acc) vs"
  shows "log_probability_loop ops (Mat rows) ds i acc =
           Inr (map (\<lambda>j. fl_add (acc ! j) (fl_sum (map (\<lambda>v. v ! j) vs))) [0..<length acc])"
  using assms
proof (induction ds arbitrary: i acc vs)
  case Nil
  then have "vs = []" by simp
  then show ?case by (simp add: fl_add_zero_right map_nth)
next
  case (Cons dist ds)
  from Cons.prems(1) obtain v vs' where vs: "vs = v # vs'"
    by (cases vs) auto
  from Cons.prems(1) vs
  have first: "sub_log_probability ops dist (feature_slice rows (i, i + sub_d ops dist)) =
      Inr (Vec v)"
    and others: "map2 (\<lambda>dist ab. sub_log_probability ops dist (feature_slice rows ab)) ds
               (slices (i + sub_d ops dist) (map (sub_d ops) ds)) = map (\<lambda>v. Inr (Vec v)) vs'"
    by simp_all
  from Cons.prems(2) vs have lv: "length v = length acc"
    and lvs: "list_all (\<lambda>u. length u = length (map2 fl_add acc v)) vs'"
    by simp_all
  have step: "log_probability_loop ops (Mat rows) (dist # ds) i acc =
      log_probability_loop ops (Mat rows) ds (i + sub_d ops dist) (map2 fl_add acc v)"
    using first lv by (simp add: feature_slice_def)
  have "map (\<lambda>j. fl_add (map2 fl_add acc v ! j) (fl_sum (map (\<lambda>v. v ! j) vs')))
          [0..<length (map2 fl_add acc v)] =
        map (\<lambda>j. fl_add (acc ! j) (fl_sum (map (\<lambda>v. v ! j) vs))) [0..<length acc]"
    using lv by (auto simp: vs fl_add_assoc)
  with Cons.IH [OF others lvs] step show ?case by simp
qed

lemma summarize_loop_map:
  assumes "map2 (\<lambda>dist ab. sub_summarize ops (feature_slice rows ab) w dist) ds
             (slices i (map (sub_d ops) ds)) = map Returned ds'"
    and "map (sub_d ops) ds' = map (sub_d ops) ds"
  shows "summarize_loop ops (Mat rows) w ds i = Returned ds'"
  using assms
proof (induction ds arbitrary: i ds')
  case Nil
  then show ?case by simp
next
  case (Cons dist ds)
  from Cons.prems(1) obtain x xs where ds': "ds' = x # xs"
    by (cases ds') auto
  from Cons.prems ds'
  have first: "sub_summarize ops (feature_slice rows (i, i + sub_d ops dist)) w dist = Returned x"
    and others: "map2 (\<lambda>dist ab. sub_summarize ops (feature_slice rows ab) w dist) ds
               (slices (i + sub_d ops dist) (map (sub_d ops) ds)) = map Returned xs"
    and dx: "sub_d ops x = sub_d ops dist"
    and dxs: "map (sub_d ops) xs = map (sub_d ops) ds"
    by simp_all
  from Cons.IH [OF others dxs] first dx show ?case
    by (simp add: ds' feature_slice_def)
qed

lemma from_summaries_loop_map:
  assumes "map (sub_from_summaries ops inertia) ds = map Returned ds'"
  shows "from_summaries_loop ops inertia ds = Returned ds'"
  using assms
proof (induction ds arbitrary: ds')
  case Nil
  then show ?case by simp
next
  case (Cons dist ds)
  from Cons.prems obtain x xs where ds': "ds' = x # xs"
    by (cases ds') auto
  with Cons.prems have first: "sub_from_summaries ops inertia dist = Returned x"
    and others: "map (sub_from_summaries ops inertia) ds = map Returned xs"
    by simp_all
  from Cons.IH [OF others] first show ?case by (simp add: ds')
qed

section \<open>Two equal components with equal priors\<close>

lemma logsumexp_pair: "logsumexp [Fin (ln (1 / 2) + t), Fin (ln (1 / 2) + t)] = Fin t"
proof -
  have e: "exp (ln (1 / 2 :: real) + t) + exp (ln (1 / 2) + t) = exp t"
    by (simp add: exp_add)
  have "fl_sum (map fl_exp [Fin (ln (1 / 2) + t), Fin (ln (1 / 2) + t)]) = Fin (exp t)"
    using e by simp
  then show ?thesis unfolding logsumexp_def by simp
qed

lemma ln_products: "4 * ln pi + ln (26 * pi) < 4 * ln (5 * pi / 2) + ln (10 * pi)"
proof -
  have a: "ln (26 * pi) = ln 26 + ln pi" by (simp add: ln_mult)
  have b: "ln (5 * pi / 2) = ln (5 / 2) + ln pi"
    using ln_mult [of "5 / 2" pi] by (simp add: field_simps)
  have c: "ln (10 * pi) = ln 10 + ln pi" by (simp add: ln_mult)
  have "(26::real) < (5 / 2) ^ 4 * 10" by (simp add: power4_eq_xxxx)
  then have "ln (26::real) < ln ((5 / 2) ^ 4 * 10)" by (subst ln_less_cancel_iff) simp_all
  also have "ln ((5 / 2) ^ 4 * (10::real)) = 4 * ln (5 / 2) + ln 10"
    by (simp add: ln_mult ln_realpow)
  finally show ?thesis by (simp add: a b c)
qed

lemma component_scores_pair:
  assumes "log_prob c x = Fin l"
  shows "component_scores log_prob \<lparr>components = [c, c], priors = [Fin (1 / 2), Fin (1 / 2)]\<rparr> x =
     [Fin (ln (1 / 2) + l), Fin (ln (1 / 2) + l)]"
  using assms by (simp add: component_scores_def)

lemma responsibilities_pair:
  assumes "log_prob c x = Fin l"
  shows "responsibilities log_prob \<lparr>components = [c, c], priors = [Fin (1 / 2), Fin (1 / 2)]\<rparr> x =
     [Fin (1 / 2), Fin (1 / 2)]"
  unfolding responsibilities_def
    component_scores_pair [where log_prob = log_prob and c = c and x = x, OF assms]
    logsumexp_pair
  by (simp add: fl_sub_def)

lemma scores_logsumexp_pair:
  assumes "log_prob c x = Fin l"
  shows "logsumexp (component_scores log_prob
     \<lparr>components = [c, c], priors = [Fin (1 / 2), Fin (1 / 2)]\<rparr> x) = Fin l"
  unfolding component_scores_pair [where log_prob = log_prob and c = c and x = x, OF assms]
    logsumexp_pair ..

section \<open>The claims\<close>

text \<open>
  Claim C2 (inertia). The claim asks for \<open>inertia * old + (1 - inertia) * mle\<close>. At
  \<open>NormalDistribution2(0, 3)\<close> after \<open>summarize\<close> of the samples 2 and 4, the estimate is
  mean 3 and deviation 1, and \<open>from_summaries(0.5)\<close> would have to give mean 1.5 and
  deviation 2. The method never reads its \<open>inertia\<close> and gives mean 3 and deviation 1;
  \<open>StudentTDistribution\<close> does the same.
\<close>

theorem from_summaries_drops_inertia:
  "and_then (NormalDistribution2_summarize (Vec [Fin 2, Fin 4]) None
              (NormalDistribution2_init (Fin 0) (Fin 3)))
     (NormalDistribution2_from_summaries (Fin (1 / 2))) =
   Returned \<lparr>mu = Fin 3, std = Fin 1, parameters = (Fin 3, Fin 1), d = 1, summaries = zeros3\<rparr>
   \<and> and_then (StudentTDistribution_summarize (Vec [Fin 2, Fin 4]) None
              (StudentTDistribution_init (Fin 0) (Fin 3) (Fin 1)))
     (StudentTDistribution_from_summaries (Fin (1 / 2))) =
   Returned \<lparr>t_mu = Fin 3, t_std = Fin 1, df = Fin 1, t_parameters = (Fin 3, Fin 1), t_d = 1,
     t_summaries = zeros3\<rparr>
   \<and> fl_add (fl_mul (Fin (1 / 2)) (Fin 0)) (fl_mul (fl_sub (Fin 1) (Fin (1 / 2))) (Fin 3)) =
     Fin (3 / 2)
   \<and> NormalDistribution2_from_summaries inertia self =
     NormalDistribution2_from_summaries (Fin 0) self
   \<and> StudentTDistribution_from_summaries inertia tself =
     StudentTDistribution_from_summaries (Fin 0) tself"
  by (simp add: NormalDistribution2_summarize_def NormalDistribution2_init_def
        NormalDistribution2_from_summaries_def NormalDistribution2_clear_summaries_def
        StudentTDistribution_summarize_def StudentTDistribution_init_def
        StudentTDistribution_from_summaries_def StudentTDistribution_clear_summaries_def
        zeros3_def ones_def dot_def fl_pow2_def fl_sub_def)

text \<open>
  Claim C3 (zero total weight). As stated the claim fails: \<open>from_summaries\<close> on a blank
  \<open>NormalDistribution2\<close> raises nothing. It returns, and the divisions by the zero sum of
  weights have made both parameters NaN.
\<close>

theorem blank_from_summaries_returns_nan:
  "NormalDistribution2_from_summaries (Fin 0) NormalDistribution2_blank =
     Returned \<lparr>mu = NaN, std = NaN, parameters = (NaN, NaN), d = 1, summaries = zeros3\<rparr>"
  by (simp add: NormalDistribution2_from_summaries_def NormalDistribution2_clear_summaries_def
        NormalDistribution2_blank_def NormalDistribution2_init_def zeros3_def fl_sub_def
        fl_pow2_def)

text \<open>
  Claim C3, amended. For a \<open>NormalDistribution2\<close> or a \<open>StudentTDistribution\<close> whose
  accumulator holds zero total weight (pristine or just cleared), \<open>from_summaries\<close> raises
  no error: it returns, with the accumulator zero again and \<open>d\<close> (and \<open>df\<close>) as before.
\<close>

theorem zero_weight_from_summaries_returns:
  assumes "summaries self = zeros3" and "t_summaries tself = zeros3"
  shows "(\<exists>s. NormalDistribution2_from_summaries inertia self = Returned s
              \<and> summaries s = zeros3 \<and> d s = d self)
       \<and> (\<exists>s. StudentTDistribution_from_summaries inertia tself = Returned s
              \<and> t_summaries s = zeros3 \<and> t_d s = t_d tself \<and> df s = df tself)"
  by (simp add: NormalDistribution2_from_summaries_eq StudentTDistribution_from_summaries_eq)

theorem zero_weight_from_summaries_returns_witness:
  "summaries NormalDistribution2_blank = zeros3
   \<and> t_summaries (state_of (StudentTDistribution_clear_summaries (Fin 0)
         (StudentTDistribution_init (Fin 2) (Fin 1) (Fin 3)))) = zeros3
   \<and> (\<exists>s. NormalDistribution2_from_summaries (Fin 0) NormalDistribution2_blank = Returned s
          \<and> summaries s = zeros3 \<and> d s = 1)
   \<and> (\<exists>s. StudentTDistribution_from_summaries (Fin 0)
          (state_of (StudentTDistribution_clear_summaries (Fin 0)
             (StudentTDistribution_init (Fin 2) (Fin 1) (Fin 3)))) = Returned s
          \<and> t_summaries s = zeros3 \<and> t_d s = 1 \<and> df s = Fin 3)"
proof -
  have h1: "summaries NormalDistribution2_blank = zeros3"
    by (simp add: NormalDistribution2_blank_def NormalDistribution2_init_def)
  have h2: "t_summaries (state_of (StudentTDistribution_clear_summaries (Fin 0)
         (StudentTDistribution_init (Fin 2) (Fin 1) (Fin 3)))) = zeros3"
    by (simp add: StudentTDistribution_clear_summaries_def)
  from zero_weight_from_summaries_returns [OF h1 h2, of "Fin 0"] h1 h2 show ?thesis
    by (simp add: NormalDistribution2_blank_def NormalDistribution2_init_def
          StudentTDistribution_clear_summaries_def StudentTDistribution_init_def)
qed

text \<open>
  Claim C4 (log-probability and the accumulator). \<open>log_probability\<close> of
  \<open>NormalDistribution2\<close> reads \<open>mu\<close> and \<open>std\<close> only, that of \<open>StudentTDistribution\<close>
  reads \<open>df\<close>, \<open>mu\<close> and \<open>std\<close> only: two objects that agree on them give the same
  log-probabilities whatever their accumulators hold, and a call of \<open>summarize\<close>, whether
  it returns or raises, changes no later log-probability.
\<close>

theorem log_probability_ignores_summaries:
  assumes "mu a = mu b" and "std a = std b"
    and "t_mu ta = t_mu tb" and "t_std ta = t_std tb" and "df ta = df tb"
  shows "NormalDistribution2_log_probability norm_logpdf X a =
           NormalDistribution2_log_probability norm_logpdf X b
       \<and> NormalDistribution2_log_probability norm_logpdf X
           (state_of (NormalDistribution2_summarize Y w a)) =
           NormalDistribution2_log_probability norm_logpdf X a
       \<and> StudentTDistribution_log_probability t_logpdf X ta =
           StudentTDistribution_log_probability t_logpdf X tb
       \<and> StudentTDistribution_log_probability t_logpdf X
           (state_of (StudentTDistribution_summarize Y w ta)) =
           StudentTDistribution_log_probability t_logpdf X ta"
  using assms
  by (simp add: NormalDistribution2_log_probability_def StudentTDistribution_log_probability_def
        NormalDistribution2_summarize_frame StudentTDistribution_summarize_frame)

theorem log_probability_ignores_summaries_witness:
  "NormalDistribution2_log_probability (\<lambda>x m s. fl_sub x m) (Vec [Fin 5])
     (NormalDistribution2_init (Fin 2) (Fin 1)) =
   NormalDistribution2_log_probability (\<lambda>x m s. fl_sub x m) (Vec [Fin 5])
     (NormalDistribution2_init (Fin 2) (Fin 1)\<lparr>summaries := (Fin 7, Fin 8, Fin 9)\<rparr>)
   \<and> StudentTDistribution_log_probability (\<lambda>x f m s. fl_sub x m) (Vec [Fin 5])
     (StudentTDistribution_init (Fin 2) (Fin 1) (Fin 1)) =
   StudentTDistribution_log_probability (\<lambda>x f m s. fl_sub x m) (Vec [Fin 5])
     (StudentTDistribution_init (Fin 2) (Fin 1) (Fin 1)\<lparr>t_summaries := (Fin 7, Fin 8, Fin 9)\<rparr>)
   \<and> NormalDistribution2_log_probability (\<lambda>x m s. fl_sub x m) (Vec [Fin 5])
     (NormalDistribution2_init (Fin 2) (Fin 1)) = Vec [Fin 3]"
proof -
  let ?a = "NormalDistribution2_init (Fin 2) (Fin 1)"
  let ?b = "NormalDistribution2_init (Fin 2) (Fin 1)\<lparr>summaries := (Fin 7, Fin 8, Fin 9)\<rparr>"
  let ?ta = "StudentTDistribution_init (Fin 2) (Fin 1) (Fin 1)"
  let ?tb = "StudentTDistribution_init (Fin 2) (Fin 1) (Fin 1)
               \<lparr>t_summaries := (Fin 7, Fin 8, Fin 9)\<rparr>"
  have h1: "mu ?a = mu ?b" and h2: "std ?a = std ?b"
    and h3: "t_mu ?ta = t_mu ?tb" and h4: "t_std ?ta = t_std ?tb" and h5: "df ?ta = df ?tb"
    by simp_all
  have "NormalDistribution2_log_probability (\<lambda>x m s. fl_sub x m) (Vec [Fin 5]) ?a = Vec [Fin 3]"
    by (simp add: NormalDistribution2_log_probability_def NormalDistribution2_init_def
          fl_sub_def)
  with log_probability_ignores_summaries [OF h1 h2 h3 h4 h5] show ?thesis
    by simp
qed

text \<open>
  Claim C5 (the accumulator after \<open>from_summaries\<close>). For every state and every
  \<open>inertia\<close>, \<open>from_summaries\<close> returns with the accumulator equal to \<open>numpy.zeros(3)\<close>,
  a state that \<open>clear_summaries\<close> leaves as it is. A second \<open>from_summaries\<close> right after
  the first therefore finalises an empty accumulator: it gives what \<open>from_summaries\<close>
  gives on the object with its accumulator cleared, and nothing of the statistics the
  first call consumed.
\<close>

theorem from_summaries_clears_summaries:
  "(\<exists>s. NormalDistribution2_from_summaries inertia self = Returned s
        \<and> summaries s = zeros3
        \<and> summaries s = summaries (state_of (NormalDistribution2_clear_summaries inertia' other))
        \<and> NormalDistribution2_clear_summaries inertia' s = Returned s)
   \<and> and_then (NormalDistribution2_from_summaries inertia self)
        (NormalDistribution2_from_summaries inertia') =
      NormalDistribution2_from_summaries inertia' (self\<lparr>summaries := zeros3\<rparr>)
   \<and> (\<exists>s. StudentTDistribution_from_summaries inertia tself = Returned s
        \<and> t_summaries s = zeros3
        \<and> t_summaries s =
            t_summaries (state_of (StudentTDistribution_clear_summaries inertia' tother))
        \<and> StudentTDistribution_clear_summaries inertia' s = Returned s)
   \<and> and_then (StudentTDistribution_from_summaries inertia tself)
        (StudentTDistribution_from_summaries inertia') =
      StudentTDistribution_from_summaries inertia' (tself\<lparr>t_summaries := zeros3\<rparr>)"
  by (simp add: NormalDistribution2_from_summaries_eq StudentTDistribution_from_summaries_eq
        NormalDistribution2_clear_summaries_def StudentTDistribution_clear_summaries_def)

text \<open>
  Claim C6 (the block distribution). Let the block be built from the sub-distributions
  \<open>ds\<close>, and let every sub-distribution answer for its slice of the samples: its
  \<open>log_probability\<close> with one value per sample, its \<open>summarize\<close> and its
  \<open>from_summaries\<close> by returning, its \<open>d\<close> unchanged. Then the block's \<open>log_probability\<close>
  is, sample by sample, the sum of the sub-distributions' values on their slices; the
  slices are consecutive column ranges that make up \<open>0..d-1\<close> exactly (the features
  \<open>1..d\<close> counted from 0), \<open>d\<close> being the sum of the dimensions taken at construction;
  and \<open>summarize\<close> and \<open>from_summaries\<close> change nothing in the block but the
  sub-distributions, each by its own method on its own slice with the weights passed on.
\<close>

theorem block_delegates_by_slices:
  assumes "map2 (\<lambda>dist ab. sub_log_probability ops dist (feature_slice rows ab)) ds
             (slices 0 (map (sub_d ops) ds)) = map (\<lambda>v. Inr (Vec v)) vs"
    and "list_all (\<lambda>v. length v = length rows) vs"
    and "map2 (\<lambda>dist ab. sub_summarize ops (feature_slice rows ab) w dist) ds
             (slices 0 (map (sub_d ops) ds)) = map Returned ds1"
    and "map (sub_d ops) ds1 = map (sub_d ops) ds"
    and "map (sub_from_summaries ops inertia) ds = map Returned ds2"
  shows "BlockGaussianDistribution_log_probability ops (Mat rows)
           (BlockGaussianDistribution_init ops ds) =
           Inr (Vec (map (\<lambda>j. fl_sum (map (\<lambda>v. v ! j) vs)) [0..<length rows]))
       \<and> concat (map (\<lambda>(a, b). [a..<b]) (slices 0 (map (sub_d ops) ds))) =
           [0..<block_d (BlockGaussianDistribution_init ops ds)]
       \<and> BlockGaussianDistribution_summarize ops (Mat rows) w
           (BlockGaussianDistribution_init ops ds) =
           Returned (BlockGaussianDistribution_init ops ds\<lparr>distributions := ds1\<rparr>)
       \<and> BlockGaussianDistribution_from_summaries ops inertia
           (BlockGaussianDistribution_init ops ds) =
           Returned (BlockGaussianDistribution_init ops ds\<lparr>distributions := ds2\<rparr>)"
proof -
  have len: "list_all (\<lambda>v. length v = length (replicate (length rows) (Fin 0))) vs"
    using assms(2) by simp
  have "BlockGaussianDistribution_log_probability ops (Mat rows)
           (BlockGaussianDistribution_init ops ds) =
           Inr (Vec (map (\<lambda>j. fl_sum (map (\<lambda>v. v ! j) vs)) [0..<length rows]))"
    by (simp add: BlockGaussianDistribution_log_probability_def
          BlockGaussianDistribution_init_def
          log_probability_loop_sum [OF assms(1) len] fl_add_zero_left)
  moreover have "concat (map (\<lambda>(a, b). [a..<b]) (slices 0 (map (sub_d ops) ds))) =
           [0..<block_d (BlockGaussianDistribution_init ops ds)]"
    by (simp add: slices_cover BlockGaussianDistribution_init_def)
  moreover have "BlockGaussianDistribution_summarize ops (Mat rows) w
           (BlockGaussianDistribution_init ops ds) =
           Returned (BlockGaussianDistribution_init ops ds\<lparr>distributions := ds1\<rparr>)"
    by (simp add: BlockGaussianDistribution_summarize_def BlockGaussianDistribution_init_def
          summarize_loop_map [OF assms(3) assms(4)])
  moreover have "BlockGaussianDistribution_from_summaries ops inertia
           (BlockGaussianDistribution_init ops ds) =
           Returned (BlockGaussianDistribution_init ops ds\<lparr>distributions := ds2\<rparr>)"
    by (simp add: BlockGaussianDistribution_from_summaries_def
          BlockGaussianDistribution_init_def from_summaries_loop_map [OF assms(5)])
  ultimately show ?thesis by simp
qed

theorem block_delegates_by_slices_witness:
  "BlockGaussianDistribution_log_probability (NormalDistribution2_methods (\<lambda>x m s. fl_sub x m))
     (Mat [[Fin 1, Fin 2]])
     (BlockGaussianDistribution_init (NormalDistribution2_methods (\<lambda>x m s. fl_sub x m))
        [NormalDistribution2_init (Fin 0) (Fin 1), NormalDistribution2_init (Fin 1) (Fin 1)]) =
     Inr (Vec [Fin 2])
   \<and> map summaries (distributions (state_of
       (BlockGaussianDistribution_summarize (NormalDistribution2_methods (\<lambda>x m s. fl_sub x m))
          (Mat [[Fin 1, Fin 2]]) None
          (BlockGaussianDistribution_init (NormalDistribution2_methods (\<lambda>x m s. fl_sub x m))
             [NormalDistribution2_init (Fin 0) (Fin 1),
              NormalDistribution2_init (Fin 1) (Fin 1)])))) =
     [(Fin 1, Fin 1, Fin 1), (Fin 1, Fin 2, Fin 4)]
   \<and> map mu (distributions (state_of
       (BlockGaussianDistribution_from_summaries
          (NormalDistribution2_methods (\<lambda>x m s. fl_sub x m)) (Fin 0)
          (BlockGaussianDistribution_init (NormalDistribution2_methods (\<lambda>x m s. fl_sub x m))
             [NormalDistribution2_init (Fin 0) (Fin 1),
              NormalDistribution2_init (Fin 1) (Fin 1)])))) =
     [NaN, NaN]"
proof -
  let ?ops = "NormalDistribution2_methods (\<lambda>x m s. fl_sub x m)"
  let ?ds = "[NormalDistribution2_init (Fin 0) (Fin 1), NormalDistribution2_init (Fin 1) (Fin 1)]"
  let ?rows = "[[Fin 1, Fin 2]]"
  let ?ds1 = "[NormalDistribution2_init (Fin 0) (Fin 1)\<lparr>summaries := (Fin 1, Fin 1, Fin 1)\<rparr>,
               NormalDistribution2_init (Fin 1) (Fin 1)\<lparr>summaries := (Fin 1, Fin 2, Fin 4)\<rparr>]"
  let ?ds2 = "[NormalDistribution2_init NaN NaN, NormalDistribution2_init NaN NaN]"
  have h1: "map2 (\<lambda>dist ab. sub_log_probability ?ops dist (feature_slice ?rows ab)) ?ds
             (slices 0 (map (sub_d ?ops) ?ds)) = map (\<lambda>v. Inr (Vec v)) [[Fin 1], [Fin 1]]"
    by (simp add: NormalDistribution2_methods_def NormalDistribution2_init_def
          feature_slice_def NormalDistribution2_log_probability_def fl_sub_def)
  have h2: "list_all (\<lambda>v. length v = length ?rows) [[Fin 1], [Fin 1]]"
    by simp
  have h3: "map2 (\<lambda>dist ab. sub_summarize ?ops (feature_slice ?rows ab) None dist) ?ds
             (slices 0 (map (sub_d ?ops) ?ds)) = map Returned ?ds1"
    by (simp add: NormalDistribution2_methods_def NormalDistribution2_init_def
          feature_slice_def NormalDistribution2_summarize_def zeros3_def ones_def dot_def
          fl_pow2_def)
  have h4: "map (sub_d ?ops) ?ds1 = map (sub_d ?ops) ?ds"
    by (simp add: NormalDistribution2_methods_def NormalDistribution2_init_def)
  have h5: "map (sub_from_summaries ?ops (Fin 0)) ?ds = map Returned ?ds2"
    by (simp add: NormalDistribution2_methods_def NormalDistribution2_init_def
          NormalDistribution2_from_summaries_def NormalDistribution2_clear_summaries_def
          zeros3_def fl_sub_def fl_pow2_def)
  from block_delegates_by_slices [OF h1 h2 h3 h4 h5] show ?thesis
    by (simp add: NormalDistribution2_init_def)
qed

text \<open>
  Claim C7 (unseen symbols). For a \<open>DiscreteDistribution\<close> and a symbol that its map does
  not hold, \<open>probability\<close> returns exactly 0 and \<open>log_probability\<close> returns minus
  infinity; neither fails. The witness is the distribution over A, C, G and T of the
  specification, asked for the symbol \<open>?\<close>.
\<close>

theorem unseen_symbol_probability_zero:
  assumes "symbol \<notin> fst ` set (keymap self)"
  shows "DiscreteDistribution_probability symbol self = Inr (Fin 0)
       \<and> DiscreteDistribution_log_probability symbol self = Inr NInf"
proof -
  from assms have "map_of (keymap self) symbol = None"
    by (simp add: map_of_eq_None_iff)
  then show ?thesis
    by (simp add: DiscreteDistribution_probability_def DiscreteDistribution_log_probability_def)
qed

theorem unseen_symbol_probability_zero_witness:
  "DiscreteDistribution_probability ''?''
     (DiscreteDistribution_init [(''A'', Fin (1 / 10)), (''C'', Fin (25 / 100)),
        (''G'', Fin (5 / 10)), (''T'', Fin (15 / 100))]) = Inr (Fin 0)
   \<and> DiscreteDistribution_log_probability ''?''
     (DiscreteDistribution_init [(''A'', Fin (1 / 10)), (''C'', Fin (25 / 100)),
        (''G'', Fin (5 / 10)), (''T'', Fin (15 / 100))]) = Inr NInf"
proof -
  have h: "''?'' \<notin> fst ` set (keymap (DiscreteDistribution_init
     [(''A'', Fin (1 / 10)), (''C'', Fin (25 / 100)), (''G'', Fin (5 / 10)),
      (''T'', Fin (15 / 100))]))"
    by (simp add: DiscreteDistribution_init_def upt_rec)
  from unseen_symbol_probability_zero [OF h] show ?thesis .
qed

text \<open>
  Claim C8 (EM monotonicity). The claim asks that no EM step lowers the total
  log-likelihood. The update of the tutorial's \<open>StudentTDistribution\<close> is the one of
  \<open>NormalDistribution2\<close>, the mean and the deviation of the weighted samples, which is
  not the maximum-likelihood update of a Student-t. Let \<open>scipy.stats.t.logpdf\<close> with one
  degree of freedom (the constructor's default \<open>df\<close>) be the logarithm of the Cauchy
  density \<open>1 / (pi * scale * (1 + ((x - loc) / scale) ** 2))\<close> for finite arguments and
  a positive scale. Take two equal components \<open>StudentTDistribution(0, 1)\<close> with priors
  1/2 and the samples 0, 0, 0, 0, 5. One EM step moves both components to mean 1 and
  deviation 2; the total log-likelihood falls from \<open>-4 ln pi - ln (26 pi)\<close> to
  \<open>-4 ln (5 pi / 2) - ln (10 pi)\<close>, and the log-likelihood of the weighted samples under
  the updated component is below the one under the component before the update.
\<close>

theorem student_t_em_step_lowers_log_likelihood:
  assumes cauchy: "\<And>x m s. 0 < s \<Longrightarrow>
      t_logpdf (Fin x) (Fin 1) (Fin m) (Fin s) = Fin (- ln (pi * s * (1 + ((x - m) / s)\<^sup>2)))"
  shows "em_step (StudentTDistribution_log_prob t_logpdf) StudentTDistribution_fit
           [Fin 0, Fin 0, Fin 0, Fin 0, Fin 5]
           \<lparr>components = [StudentTDistribution_init (Fin 0) (Fin 1) (Fin 1),
                          StudentTDistribution_init (Fin 0) (Fin 1) (Fin 1)],
            priors = [Fin (1 / 2), Fin (1 / 2)]\<rparr> =
         \<lparr>components =
            [\<lparr>t_mu = Fin 1, t_std = Fin 2, df = Fin 1, t_parameters = (Fin 1, Fin 2),
              t_d = 1, t_summaries = zeros3\<rparr>,
             \<lparr>t_mu = Fin 1, t_std = Fin 2, df = Fin 1, t_parameters = (Fin 1, Fin 2),
              t_d = 1, t_summaries = zeros3\<rparr>],
          priors = [Fin (1 / 2), Fin (1 / 2)]\<rparr>
       \<and> fl_less
           (total_log_likelihood (StudentTDistribution_log_prob t_logpdf)
              [Fin 0, Fin 0, Fin 0, Fin 0, Fin 5]
              (em_step (StudentTDistribution_log_prob t_logpdf) StudentTDistribution_fit
                 [Fin 0, Fin 0, Fin 0, Fin 0, Fin 5]
                 \<lparr>components = [StudentTDistribution_init (Fin 0) (Fin 1) (Fin 1),
                                StudentTDistribution_init (Fin 0) (Fin 1) (Fin 1)],
                  priors = [Fin (1 / 2), Fin (1 / 2)]\<rparr>))
           (total_log_likelihood (StudentTDistribution_log_prob t_logpdf)
              [Fin 0, Fin 0, Fin 0, Fin 0, Fin 5]
              \<lparr>components = [StudentTDistribution_init (Fin 0) (Fin 1) (Fin 1),
                             StudentTDistribution_init (Fin 0) (Fin 1) (Fin 1)],
               priors = [Fin (1 / 2), Fin (1 / 2)]\<rparr>)
       \<and> fl_less
           (weighted_log_likelihood (StudentTDistribution_log_prob t_logpdf)
              [Fin 0, Fin 0, Fin 0, Fin 0, Fin 5]
              [Fin (1 / 2), Fin (1 / 2), Fin (1 / 2), Fin (1 / 2), Fin (1 / 2)]
              (StudentTDistribution_fit [Fin 0, Fin 0, Fin 0, Fin 0, Fin 5]
                 [Fin (1 / 2), Fin (1 / 2), Fin (1 / 2), Fin (1 / 2), Fin (1 / 2)]
                 (StudentTDistribution_init (Fin 0) (Fin 1) (Fin 1))))
           (weighted_log_likelihood (StudentTDistribution_log_prob t_logpdf)
              [Fin 0, Fin 0, Fin 0, Fin 0, Fin 5]
              [Fin (1 / 2), Fin (1 / 2), Fin (1 / 2), Fin (1 / 2), Fin (1 / 2)]
              (StudentTDistribution_init (Fin 0) (Fin 1) (Fin 1)))"
proof -
  let ?lp = "StudentTDistribution_log_prob t_logpdf"
  let ?X = "[Fin 0, Fin 0, Fin 0, Fin 0, Fin 5]"
  let ?w = "[Fin (1 / 2), Fin (1 / 2), Fin (1 / 2), Fin (1 / 2), Fin (1 / 2)]"
  let ?c0 = "StudentTDistribution_init (Fin 0) (Fin 1) (Fin 1)"
  let ?c1 = "\<lparr>t_mu = Fin 1, t_std = Fin 2, df = Fin 1, t_parameters = (Fin 1, Fin 2),
    t_d = 1, t_summaries = zeros3\<rparr>"
  let ?m0 = "\<lparr>components = [?c0, ?c0], priors = [Fin (1 / 2), Fin (1 / 2)]\<rparr>"
  let ?m1 = "\<lparr>components = [?c1, ?c1], priors = [Fin (1 / 2), Fin (1 / 2)]\<rparr>"
  have lp: "?lp \<lparr>t_mu = Fin m, t_std = Fin s, df = Fin 1, t_parameters = q, t_d = n,
      t_summaries = z\<rparr> (Fin x) = Fin (- ln (pi * s * (1 + ((x - m) / s)\<^sup>2)))"
    if "0 < s" for m s q n z x
    using that
    by (simp add: StudentTDistribution_log_prob_def StudentTDistribution_log_probability_def
          cauchy)
  have lp0: "?lp ?c0 (Fin x) = Fin (- ln (pi * (1 + x\<^sup>2)))" for x
    using lp [of 1 0 "(Fin 0, Fin 1)" 1 zeros3 x] by (simp add: StudentTDistribution_init_def)
  have lp1: "?lp ?c1 (Fin x) = Fin (- ln (pi * 2 * (1 + ((x - 1) / 2)\<^sup>2)))" for x
    using lp [of 2 1 "(Fin 1, Fin 2)" 1 zeros3 x] by simp
  have r0: "responsibilities ?lp ?m0 (Fin x) = [Fin (1 / 2), Fin (1 / 2)]" for x
    by (rule responsibilities_pair [where log_prob = ?lp and c = ?c0 and x = "Fin x", OF lp0])
  have s0: "logsumexp (component_scores ?lp ?m0 (Fin x)) = Fin (- ln (pi * (1 + x\<^sup>2)))" for x
    by (rule scores_logsumexp_pair [where log_prob = ?lp and c = ?c0 and x = "Fin x", OF lp0])
  have s1: "logsumexp (component_scores ?lp ?m1 (Fin x)) =
      Fin (- ln (pi * 2 * (1 + ((x - 1) / 2)\<^sup>2)))" for x
    by (rule scores_logsumexp_pair [where log_prob = ?lp and c = ?c1 and x = "Fin x", OF lp1])
  have col: "responsibility_column ?lp ?m0 ?X k = ?w" if "k < 2" for k
  proof -
    have "k = 0 \<or> k = 1" using that by auto
    then show ?thesis
      by (auto simp: responsibility_column_def r0)
  qed
  have fit: "StudentTDistribution_fit ?X ?w ?c0 = ?c1"
    by (simp add: StudentTDistribution_fit_def StudentTDistribution_summarize_def
          StudentTDistribution_from_summaries_def StudentTDistribution_clear_summaries_def
          StudentTDistribution_init_def zeros3_def dot_def fl_pow2_def fl_sub_def)
  have step: "em_step ?lp StudentTDistribution_fit ?X ?m0 = ?m1"
    by (simp add: em_step_def upt_rec col fit)
  have before: "total_log_likelihood ?lp ?X ?m0 = Fin (- (4 * ln pi + ln (26 * pi)))"
    unfolding total_log_likelihood_def list.map s0
    by simp
  have after: "total_log_likelihood ?lp ?X ?m1 = Fin (- (4 * ln (5 * pi / 2) + ln (10 * pi)))"
    unfolding total_log_likelihood_def list.map s1
    by (simp add: power2_eq_square)
  have wbefore: "weighted_log_likelihood ?lp ?X ?w ?c0 = Fin (- (4 * ln pi + ln (26 * pi)) / 2)"
    unfolding weighted_log_likelihood_def by (simp add: lp0)
  have wafter: "weighted_log_likelihood ?lp ?X ?w ?c1 =
      Fin (- (4 * ln (5 * pi / 2) + ln (10 * pi)) / 2)"
    unfolding weighted_log_likelihood_def by (simp add: lp power2_eq_square)
  show ?thesis
    unfolding step fit before after wbefore wafter using ln_products by simp
qed

theorem student_t_em_step_lowers_log_likelihood_witness:
  "fl_less
     (total_log_likelihood
        (StudentTDistribution_log_prob
           (\<lambda>x f loc scale. case (x, loc, scale) of
              (Fin a, Fin m, Fin s) \<Rightarrow> Fin (- ln (pi * s * (1 + ((a - m) / s)\<^sup>2)))
            | _ \<Rightarrow> NaN))
        [Fin 0, Fin 0, Fin 0, Fin 0, Fin 5]
        (em_step
           (StudentTDistribution_log_prob
              (\<lambda>x f loc scale. case (x, loc, scale) of
                 (Fin a, Fin m, Fin s) \<Rightarrow> Fin (- ln (pi * s * (1 + ((a - m) / s)\<^sup>2)))
               | _ \<Rightarrow> NaN))
           StudentTDistribution_fit
           [Fin 0, Fin 0, Fin 0, Fin 0, Fin 5]
           \<lparr>components = [StudentTDistribution_init (Fin 0) (Fin 1) (Fin 1),
                          StudentTDistribution_init (Fin 0) (Fin 1) (Fin 1)],
            priors = [Fin (1 / 2), Fin (1 / 2)]\<rparr>))
     (total_log_likelihood
        (StudentTDistribution_log_prob
           (\<lambda>x f loc scale. case (x, loc, scale) of
              (Fin a, Fin m, Fin s) \<Rightarrow> Fin (- ln (pi * s * (1 + ((a - m) / s)\<^sup>2)))
            | _ \<Rightarrow> NaN))
        [Fin 0, Fin 0, Fin 0, Fin 0, Fin 5]
        \<lparr>components = [StudentTDistribution_init (Fin 0) (Fin 1) (Fin 1),
                       StudentTDistribution_init (Fin 0) (Fin 1) (Fin 1)],
         priors = [Fin (1 / 2), Fin (1 / 2)]\<rparr>)"
proof -
  let ?f = "\<lambda>x f loc scale. case (x, loc, scale) of
      (Fin a, Fin m, Fin s) \<Rightarrow> Fin (- ln (pi * s * (1 + ((a - m) / s)\<^sup>2)))
    | _ \<Rightarrow> NaN"
  have h: "\<And>x m s. 0 < s \<Longrightarrow>
      ?f (Fin x) (Fin 1) (Fin m) (Fin s) = Fin (- ln (pi * s * (1 + ((x - m) / s)\<^sup>2)))"
    by simp
  from student_t_em_step_lowers_log_likelihood [where t_logpdf = ?f, OF h]
  show ?thesis by blast
qed

text \<open>
  Claim C10 (the degrees of freedom). \<open>from_summaries\<close> of \<open>StudentTDistribution\<close> leaves
  \<open>df\<close> as it was, for every state, every \<open>inertia\<close> and after every \<open>summarize\<close>.
\<close>

theorem from_summaries_keeps_df:
  "df (state_of (StudentTDistribution_from_summaries inertia self)) = df self
   \<and> df (state_of (and_then (StudentTDistribution_summarize X w self)
        (StudentTDistribution_from_summaries inertia))) = df self"
proof -
  have a: "df (state_of (StudentTDistribution_from_summaries inertia s)) = df s" for s
    by (simp add: StudentTDistribution_from_summaries_eq)
  have "df (state_of (and_then (StudentTDistribution_summarize X w self)
        (StudentTDistribution_from_summaries inertia))) = df self"
    using StudentTDistribution_summarize_frame [of X w self]
    by (cases "StudentTDistribution_summarize X w self") (simp_all add: a)
  with a show ?thesis by simp
qed

end
